theory Spec2Isabelle
  imports Complex_Main "HOL-Library.Word" "HOL-Library.Monad_Syntax"
begin

section \<open>Basic types\<close>

text \<open>
  A C++ \<open>int\<close> is a 32-bit two's complement word: \<open>+\<close> and \<open>-\<close> wrap around,
  \<open>sint\<close> reads the signed value, and the source's comparisons on \<open>int\<close> are
  comparisons of \<open>sint\<close>. A \<open>system_clock::time_point\<close> is its tick count; the clock
  reading \<open>system_clock::now()\<close> is the parameter \<open>now\<close> of every function that reads
  it.

  A finite \<open>double\<close> is the real number it denotes; NaN and the infinities have no
  counterpart. Comparison and \<open>std::abs\<close> of finite doubles are exact. The arithmetic that
  rounds is not computed here: the subtraction and the multiplication of the price check of
  \<open>validateOrder\<close> are the parameter \<open>fp\<close> (as is \<open>std::to_string(double)\<close>), and the
  order total, which nothing below reads, is summed exactly.

  A \<open>std::mutex\<close> is the flag "held by the calling thread". \<open>std::mutex\<close> is not
  recursive: a \<open>std::lock_guard\<close> on a mutex the calling thread already holds does not
  return (the thread waits for itself), so every function that takes a lock returns an
  \<open>option\<close>, and \<open>None\<close> is "the call does not return". Where the body of a function
  calls another member function of the same object, the flag is set for the body and cleared at
  every return; elsewhere it is only tested.
\<close>

type_synonym cpp_int = "32 word"
type_synonym time_point = int

definition lock_guard :: "bool \<Rightarrow> unit option" where
  "lock_guard held = (if held then None else Some ())"

text \<open>\<open>std::to_string(int)\<close>: decimal digits, with a leading minus sign.\<close>

function to_string_nat :: "nat \<Rightarrow> string" where
  "to_string_nat n =
     (if n < 10 then [''0123456789'' ! n]
      else to_string_nat (n div 10) @ [''0123456789'' ! (n mod 10)])"
  by pat_completeness auto
termination
  by (relation "measure id") auto

definition to_string :: "cpp_int \<Rightarrow> string" where
  "to_string i =
     (if sint i < 0 then CHR ''-'' # to_string_nat (nat (- sint i))
      else to_string_nat (nat (sint i)))"

text \<open>
  The operations on \<open>double\<close> that the price check uses: IEEE-754 binary64 subtraction and
  multiplication (each rounds its exact result), and \<open>std::to_string(double)\<close>. The
  literal \<open>0.05\<close> is the double nearest to it, \<open>3602879701896397 / 2^56\<close>.
\<close>

record double_ops =
  double_minus :: "real \<Rightarrow> real \<Rightarrow> real"
  double_times :: "real \<Rightarrow> real \<Rightarrow> real"
  double_to_string :: "real \<Rightarrow> string"

definition double_0_05 :: real where
  "double_0_05 = 3602879701896397 / 72057594037927936"

section \<open>Product (Product.hpp, Product.cpp)\<close>

text \<open>
  \<open>Product\<close> and \<open>PerishableProduct\<close> in one record: \<open>perishable'\<close> is \<open>None\<close> for a
  plain product and holds the members that \<open>PerishableProduct\<close> adds for a perishable one.
\<close>

record Perishable =
  expiry_date' :: time_point
  storage_requirements' :: string
  storage_temperature' :: real

record Product =
  id' :: string
  name' :: string
  category' :: string
  price' :: real
  quantity' :: cpp_int
  created_date' :: time_point
  perishable' :: "Perishable option"

datatype exception = invalid_argument string

definition Product_addQuantity :: "Product \<Rightarrow> cpp_int \<Rightarrow> exception + Product" where
  "Product_addQuantity p amount =
     (if sint amount < 0 then Inl (invalid_argument ''Amount to add cannot be negative'')
      else Inr (p\<lparr>quantity' := quantity' p + amount\<rparr>))"

definition Product_removeQuantity :: "Product \<Rightarrow> cpp_int \<Rightarrow> exception + Product" where
  "Product_removeQuantity p amount =
     (if sint amount < 0 then Inl (invalid_argument ''Amount to remove cannot be negative'')
      else if sint (quantity' p) < sint amount
        then Inl (invalid_argument ''Cannot remove more quantity than available'')
      else Inr (p\<lparr>quantity' := quantity' p - amount\<rparr>))"

text \<open>\<open>Product::isExpired\<close> is false; \<open>PerishableProduct::isExpired\<close> is \<open>now > expiry_date_\<close>.\<close>

definition isExpired :: "time_point \<Rightarrow> Product \<Rightarrow> bool" where
  "isExpired now p =
     (case perishable' p of None \<Rightarrow> False | Some x \<Rightarrow> now > expiry_date' x)"

text \<open>
  C++ integer division and \<open>duration_cast\<close> both truncate towards zero. The tick of
  \<open>system_clock\<close> is a nanosecond (libstdc++), so an hour is \<open>3600 * 10^9\<close> ticks.
\<close>

definition cpp_div :: "int \<Rightarrow> int \<Rightarrow> int" where
  "cpp_div a b = (if (a < 0) = (b < 0) then \<bar>a\<bar> div \<bar>b\<bar> else - (\<bar>a\<bar> div \<bar>b\<bar>))"

definition ticks_per_hour :: int where
  "ticks_per_hour = 3600000000000"

definition duration_cast_hours :: "int \<Rightarrow> int" where
  "duration_cast_hours d = cpp_div d ticks_per_hour"

text \<open>
  \<open>PerishableProduct::getDaysUntilExpiry\<close>, for a product whose \<open>expiry_date_\<close> is \<open>e\<close>.
\<close>

definition getDaysUntilExpiry :: "time_point \<Rightarrow> time_point \<Rightarrow> cpp_int" where
  "getDaysUntilExpiry now e =
     (let duration = e - now;
          days = cpp_div (duration_cast_hours duration) 24
      in word_of_int days)"

section \<open>Inventory (Inventory.hpp, Inventory.cpp)\<close>

text \<open>
  An alert callback is a handle; what the inventory does with it is to call it with a
  message, and \<open>delivered'\<close> records these calls in order. A callback returns or throws
  a \<open>std::exception\<close>, which \<open>sendAlert\<close> swallows: either way the next callback is
  called.
\<close>

type_synonym callback = nat

record Inventory =
  products' :: "string \<rightharpoonup> Product"
  inventory_mutex' :: bool
  default_low_stock_threshold' :: cpp_int
  category_thresholds' :: "string \<rightharpoonup> cpp_int"
  alert_callbacks' :: "callback list"
  delivered' :: "(callback \<times> string) list"

definition getThreshold :: "Inventory \<Rightarrow> string \<Rightarrow> cpp_int" where
  "getThreshold ivt pid =
     (case products' ivt pid of
        None \<Rightarrow> default_low_stock_threshold' ivt
      | Some p \<Rightarrow>
          (case category_thresholds' ivt (category' p) of
             Some t \<Rightarrow> t
           | None \<Rightarrow> default_low_stock_threshold' ivt))"

definition sendAlert :: "Inventory \<Rightarrow> string \<Rightarrow> Inventory" where
  "sendAlert ivt message =
     ivt\<lparr>delivered' := delivered' ivt @ map (\<lambda>cb. (cb, message)) (alert_callbacks' ivt)\<rparr>"

definition low_stock_message :: "Product \<Rightarrow> string \<Rightarrow> cpp_int \<Rightarrow> string" where
  "low_stock_message p pid threshold =
     ''LOW STOCK ALERT: Product '' @ [CHR 0x27] @ name' p @ [CHR 0x27] @ '' (ID: '' @ pid @
     '') is now at '' @ to_string (quantity' p) @
     '' units (threshold: '' @ to_string threshold @ '')''"

definition Inventory_addQuantity ::
  "Inventory \<Rightarrow> string \<Rightarrow> cpp_int \<Rightarrow> (bool \<times> Inventory) option" where
  "Inventory_addQuantity ivt pid amount =
     (if sint amount < 0 then Some (False, ivt)
      else do {
        _ \<leftarrow> lock_guard (inventory_mutex' ivt);
        (case products' ivt pid of
           None \<Rightarrow> Some (False, ivt)
         | Some p \<Rightarrow>
             (case Product_addQuantity p amount of
                Inr p' \<Rightarrow> Some (True, ivt\<lparr>products' := (products' ivt)(pid \<mapsto> p')\<rparr>)
              | Inl _ \<Rightarrow> Some (False, ivt)))
      })"

definition Inventory_removeQuantity ::
  "Inventory \<Rightarrow> string \<Rightarrow> cpp_int \<Rightarrow> (bool \<times> Inventory) option" where
  "Inventory_removeQuantity ivt pid amount =
     (if sint amount < 0 then Some (False, ivt)
      else do {
        _ \<leftarrow> lock_guard (inventory_mutex' ivt);
        (case products' ivt pid of
           None \<Rightarrow> Some (False, ivt)
         | Some p \<Rightarrow>
             if sint (quantity' p) < sint amount then Some (False, ivt)
             else
               (case Product_removeQuantity p amount of
                  Inl _ \<Rightarrow> Some (False, ivt)
                | Inr p' \<Rightarrow>
                    let ivt' = ivt\<lparr>products' := (products' ivt)(pid \<mapsto> p')\<rparr>;
                        threshold = getThreshold ivt' pid
                    in if sint (quantity' p') < sint threshold
                       then Some (True, sendAlert ivt' (low_stock_message p' pid threshold))
                       else Some (True, ivt')))
      })"

definition getProduct :: "Inventory \<Rightarrow> string \<Rightarrow> Product option option" where
  "getProduct ivt pid =
     do { _ \<leftarrow> lock_guard (inventory_mutex' ivt); Some (products' ivt pid) }"

section \<open>Order (Order.hpp, Order.cpp)\<close>

record OrderItem =
  product_id :: string
  quantity :: cpp_int
  unit_price :: real

definition getTotalPrice :: "OrderItem \<Rightarrow> real" where
  "getTotalPrice item = real_of_int (sint (quantity item)) * unit_price item"

datatype OrderStatus =
  PENDING | PROCESSING | CONFIRMED | SHIPPED | DELIVERED | CANCELLED | FAILED

record Order =
  order_id' :: string
  customer_id' :: string
  items' :: "OrderItem list"
  status' :: OrderStatus
  order_date' :: time_point
  processed_date' :: time_point
  total_amount' :: real
  notes' :: string
  order_mutex' :: bool
  processing_flag' :: bool
  error_message' :: string

text \<open>
  \<open>canModify\<close>, \<open>setError\<close> and \<open>updateTotalAmount\<close> take no lock themselves ("assumes
  \<open>order_mutex_\<close> is already locked by the caller"); \<open>calculateTotal\<close> does.
\<close>

definition canModify :: "Order \<Rightarrow> bool" where
  "canModify ord = (status' ord = PENDING)"

definition setError :: "Order \<Rightarrow> string \<Rightarrow> Order" where
  "setError ord message = ord\<lparr>error_message' := message\<rparr>"

definition calculateTotal :: "Order \<Rightarrow> real option" where
  "calculateTotal ord =
     do {
       _ \<leftarrow> lock_guard (order_mutex' ord);
       Some (foldl (\<lambda>total item. total + getTotalPrice item) 0 (items' ord))
     }"

definition updateTotalAmount :: "Order \<Rightarrow> Order option" where
  "updateTotalAmount ord =
     do { total \<leftarrow> calculateTotal ord; Some (ord\<lparr>total_amount' := total\<rparr>) }"

text \<open>
  \<open>std::find_if\<close> over \<open>items_\<close> for the first item with the given product id: the
  position found, or \<open>None\<close> for \<open>items_.end()\<close>.
\<close>

fun find_if :: "OrderItem list \<Rightarrow> string \<Rightarrow> nat option" where
  "find_if [] pid = None"
| "find_if (item # rest) pid =
     (if product_id item = pid then Some 0 else map_option Suc (find_if rest pid))"

definition erase :: "'a list \<Rightarrow> nat \<Rightarrow> 'a list" where
  "erase xs i = take i xs @ drop (Suc i) xs"

text \<open>
  What \<open>addItem\<close> does to \<open>items_\<close>: the quantity of the item found grows by the new
  quantity (the new unit price is not looked at), or a new item is appended.
\<close>

definition addItem_update :: "OrderItem list \<Rightarrow> string \<Rightarrow> cpp_int \<Rightarrow> real \<Rightarrow> OrderItem list" where
  "addItem_update its pid qty price =
     (case find_if its pid of
        Some i \<Rightarrow> its[i := (its ! i)\<lparr>quantity := quantity (its ! i) + qty\<rparr>]
      | None \<Rightarrow> its @ [\<lparr>product_id = pid, quantity = qty, unit_price = price\<rparr>])"

definition addItem :: "Order \<Rightarrow> string \<Rightarrow> cpp_int \<Rightarrow> real \<Rightarrow> (bool \<times> Order) option" where
  "addItem ord pid qty price =
     (if pid = [] \<or> sint qty \<le> 0 \<or> price < 0 then Some (False, ord)
      else do {
        _ \<leftarrow> lock_guard (order_mutex' ord);
        let ord = ord\<lparr>order_mutex' := True\<rparr>;
        if \<not> canModify ord then Some (False, ord\<lparr>order_mutex' := False\<rparr>)
        else do {
          let ord = ord\<lparr>items' := addItem_update (items' ord) pid qty price\<rparr>;
          ord \<leftarrow> updateTotalAmount ord;
          Some (True, ord\<lparr>order_mutex' := False\<rparr>)
        }
      })"

definition removeItem :: "Order \<Rightarrow> string \<Rightarrow> (bool \<times> Order) option" where
  "removeItem ord pid =
     do {
       _ \<leftarrow> lock_guard (order_mutex' ord);
       let ord = ord\<lparr>order_mutex' := True\<rparr>;
       if \<not> canModify ord then Some (False, ord\<lparr>order_mutex' := False\<rparr>)
       else
         (case find_if (items' ord) pid of
            Some i \<Rightarrow> do {
              let ord = ord\<lparr>items' := erase (items' ord) i\<rparr>;
              ord \<leftarrow> updateTotalAmount ord;
              Some (True, ord\<lparr>order_mutex' := False\<rparr>)
            }
          | None \<Rightarrow> Some (False, ord\<lparr>order_mutex' := False\<rparr>))
     }"

definition updateItemQuantity :: "Order \<Rightarrow> string \<Rightarrow> cpp_int \<Rightarrow> (bool \<times> Order) option" where
  "updateItemQuantity ord pid new_quantity =
     (if sint new_quantity \<le> 0 then removeItem ord pid
      else do {
        _ \<leftarrow> lock_guard (order_mutex' ord);
        let ord = ord\<lparr>order_mutex' := True\<rparr>;
        if \<not> canModify ord then Some (False, ord\<lparr>order_mutex' := False\<rparr>)
        else
          (case find_if (items' ord) pid of
             Some i \<Rightarrow> do {
               let ord = ord\<lparr>items' := (items' ord)
                 [i := (items' ord ! i)\<lparr>quantity := new_quantity\<rparr>]\<rparr>;
               ord \<leftarrow> updateTotalAmount ord;
               Some (True, ord\<lparr>order_mutex' := False\<rparr>)
             }
           | None \<Rightarrow> Some (False, ord\<lparr>order_mutex' := False\<rparr>))
      })"

subsection \<open>Status transitions\<close>

text \<open>The \<open>switch\<close> of \<open>updateStatus\<close>: the cases in which it returns false.\<close>

fun transition_rejected :: "OrderStatus \<Rightarrow> OrderStatus \<Rightarrow> bool" where
  "transition_rejected PENDING new_status =
     (new_status \<noteq> PROCESSING \<and> new_status \<noteq> CANCELLED \<and> new_status \<noteq> FAILED)"
| "transition_rejected PROCESSING new_status =
     (new_status \<noteq> CONFIRMED \<and> new_status \<noteq> FAILED \<and> new_status \<noteq> CANCELLED)"
| "transition_rejected CONFIRMED new_status =
     (new_status \<noteq> SHIPPED \<and> new_status \<noteq> CANCELLED)"
| "transition_rejected SHIPPED new_status = (new_status \<noteq> DELIVERED)"
| "transition_rejected DELIVERED new_status = True"
| "transition_rejected CANCELLED new_status = True"
| "transition_rejected FAILED new_status = True"

definition updateStatus :: "time_point \<Rightarrow> Order \<Rightarrow> OrderStatus \<Rightarrow> (bool \<times> Order) option" where
  "updateStatus now ord new_status =
     do {
       _ \<leftarrow> lock_guard (order_mutex' ord);
       if transition_rejected (status' ord) new_status then Some (False, ord)
       else
         let ord = ord\<lparr>status' := new_status\<rparr>;
             ord = (if new_status = CONFIRMED \<or> new_status = FAILED
                    then ord\<lparr>processed_date' := now\<rparr> else ord)
         in Some (True, ord)
     }"

definition cancelOrder :: "Order \<Rightarrow> string \<Rightarrow> (bool \<times> Order) option" where
  "cancelOrder ord reason =
     do {
       _ \<leftarrow> lock_guard (order_mutex' ord);
       if status' ord = DELIVERED \<or> status' ord = SHIPPED then Some (False, ord)
       else
         let ord = ord\<lparr>status' := CANCELLED\<rparr>;
             ord = (if reason \<noteq> [] then ord\<lparr>notes' := reason\<rparr> else ord)
         in Some (True, ord)
     }"

subsection \<open>Validation\<close>

fun validateOrder_items ::
  "double_ops \<Rightarrow> time_point \<Rightarrow> Inventory \<Rightarrow> OrderItem list \<Rightarrow> string list
     \<Rightarrow> string list option" where
  "validateOrder_items fp now ivt [] errors = Some errors"
| "validateOrder_items fp now ivt (item # rest) errors =
     do {
       product \<leftarrow> getProduct ivt (product_id item);
       (case product of
          None \<Rightarrow>
            validateOrder_items fp now ivt rest
              (errors @ [''Product not found: '' @ product_id item])
        | Some p \<Rightarrow>
            let errors =
                  (if sint (quantity' p) < sint (quantity item)
                   then errors @ [''Insufficient quantity for product '' @ product_id item @
                          '': requested '' @ to_string (quantity item) @
                          '', available '' @ to_string (quantity' p)]
                   else errors);
                errors =
                  (if isExpired now p
                   then errors @ [''Product is expired: '' @ product_id item]
                   else errors);
                price_diff = \<bar>double_minus fp (price' p) (unit_price item)\<bar>;
                price_tolerance = double_times fp (price' p) double_0_05;
                errors =
                  (if price_diff > price_tolerance
                   then errors @ [''Price mismatch for product '' @ product_id item @
                          '': order price $'' @ double_to_string fp (unit_price item) @
                          '', current price $'' @ double_to_string fp (price' p)]
                   else errors)
            in validateOrder_items fp now ivt rest errors)
     }"

definition validateOrder ::
  "double_ops \<Rightarrow> time_point \<Rightarrow> Order \<Rightarrow> Inventory \<Rightarrow> string list option" where
  "validateOrder fp now ord ivt =
     do {
       _ \<leftarrow> lock_guard (order_mutex' ord);
       if items' ord = [] then Some [''Order contains no items'']
       else validateOrder_items fp now ivt (items' ord) []
     }"

subsection \<open>Processing\<close>

text \<open>The loop that writes the validation errors to \<open>error_stream\<close>, from index \<open>i\<close>.\<close>

fun error_stream :: "nat \<Rightarrow> string list \<Rightarrow> string \<Rightarrow> string" where
  "error_stream i [] s = s"
| "error_stream i (e # es) s = error_stream (Suc i) es ((if i > 0 then s @ ''; '' else s) @ e)"

text \<open>The rollback loop over \<open>processed_items\<close>; the results of \<open>addQuantity\<close> are ignored.\<close>

fun rollback :: "(string \<times> cpp_int) list \<Rightarrow> Inventory \<Rightarrow> Inventory option" where
  "rollback [] ivt = Some ivt"
| "rollback (processed # rest) ivt =
     do {
       (_, ivt) \<leftarrow> Inventory_addQuantity ivt (fst processed) (snd processed);
       rollback rest ivt
     }"

text \<open>
  The reservation loop over \<open>items_\<close>. The result is the product id of the item whose
  \<open>removeQuantity\<close> failed, after the rollback, or \<open>None\<close> when every item was reserved.
  \<open>Inventory::removeQuantity\<close> and \<open>addQuantity\<close> catch every \<open>std::exception\<close> of their
  own, so the \<open>catch\<close> clause around the loop has nothing to catch.
\<close>

fun reserve_items ::
  "OrderItem list \<Rightarrow> (string \<times> cpp_int) list \<Rightarrow> Inventory \<Rightarrow> (string option \<times> Inventory) option"
  where
  "reserve_items [] processed_items ivt = Some (None, ivt)"
| "reserve_items (item # rest) processed_items ivt =
     do {
       (ok, ivt) \<leftarrow> Inventory_removeQuantity ivt (product_id item) (quantity item);
       if \<not> ok then do {
         ivt \<leftarrow> rollback processed_items ivt;
         Some (Some (product_id item), ivt)
       }
       else reserve_items rest (processed_items @ [(product_id item, quantity item)]) ivt
     }"

text \<open>\<open>processOrderInternal\<close> from the reservation loop on (after validation).\<close>

definition processOrderInternal_reserve ::
  "time_point \<Rightarrow> Order \<Rightarrow> Inventory \<Rightarrow> (bool \<times> Order \<times> Inventory) option" where
  "processOrderInternal_reserve now ord ivt =
     do {
       (failed, ivt) \<leftarrow> reserve_items (items' ord) [] ivt;
       (case failed of
          Some pid \<Rightarrow> do {
            let ord = setError ord (''Failed to reserve inventory for product: '' @ pid);
            (_, ord) \<leftarrow> updateStatus now ord FAILED;
            Some (False, ord, ivt)
          }
        | None \<Rightarrow> do {
            (_, ord) \<leftarrow> updateStatus now ord CONFIRMED;
            Some (True, ord, ivt)
          })
     }"

text \<open>\<open>processOrderInternal\<close> from the validation on (after the first block).\<close>

definition processOrderInternal_validate ::
  "double_ops \<Rightarrow> time_point \<Rightarrow> Order \<Rightarrow> Inventory
     \<Rightarrow> (bool \<times> Order \<times> Inventory) option" where
  "processOrderInternal_validate fp now ord ivt =
     do {
       validation_errors \<leftarrow> validateOrder fp now ord ivt;
       if validation_errors \<noteq> [] then do {
         let ord = setError ord (error_stream 0 validation_errors ''Validation failed: '');
         (_, ord) \<leftarrow> updateStatus now ord FAILED;
         Some (False, ord, ivt)
       }
       else processOrderInternal_reserve now ord ivt
     }"

text \<open>
  The first block of \<open>processOrderInternal\<close> takes \<open>order_mutex_\<close> and, holding it, calls
  \<open>updateStatus\<close>, which takes \<open>order_mutex_\<close> itself.
\<close>

definition processOrderInternal ::
  "double_ops \<Rightarrow> time_point \<Rightarrow> Order \<Rightarrow> Inventory
     \<Rightarrow> (bool \<times> Order \<times> Inventory) option" where
  "processOrderInternal fp now ord ivt =
     do {
       _ \<leftarrow> lock_guard (order_mutex' ord);
       let ord = ord\<lparr>order_mutex' := True\<rparr>;
       (ok, ord) \<leftarrow> updateStatus now ord PROCESSING;
       if \<not> ok then
         Some (False,
           (setError ord ''Cannot process order in current status'')\<lparr>order_mutex' := False\<rparr>, ivt)
       else
         processOrderInternal_validate fp now (ord\<lparr>order_mutex' := False\<rparr>) ivt
     }"

text \<open>
  \<open>processOrder\<close>: \<open>compare_exchange_strong(expected = false, true)\<close> on the processing flag,
  then \<open>processOrderInternal\<close>, then \<open>store(false)\<close>.
\<close>

definition processOrder ::
  "double_ops \<Rightarrow> time_point \<Rightarrow> Order \<Rightarrow> Inventory
     \<Rightarrow> (bool \<times> Order \<times> Inventory) option" where
  "processOrder fp now ord ivt =
     (if processing_flag' ord
      then Some (False, setError ord ''Order is already being processed'', ivt)
      else do {
        (result, ord, ivt) \<leftarrow>
          processOrderInternal fp now (ord\<lparr>processing_flag' := True\<rparr>) ivt;
        Some (result, ord\<lparr>processing_flag' := False\<rparr>, ivt)
      })"

section \<open>Sequences of quantity calls\<close>

datatype quantity_call = AddQuantity string cpp_int | RemoveQuantity string cpp_int

fun apply_call :: "Inventory \<Rightarrow> quantity_call \<Rightarrow> (bool \<times> Inventory) option" where
  "apply_call ivt (AddQuantity pid amount) = Inventory_addQuantity ivt pid amount"
| "apply_call ivt (RemoveQuantity pid amount) = Inventory_removeQuantity ivt pid amount"

fun run_calls :: "Inventory \<Rightarrow> quantity_call list \<Rightarrow> Inventory option" where
  "run_calls ivt [] = Some ivt"
| "run_calls ivt (c # cs) = do { (_, ivt) \<leftarrow> apply_call ivt c; run_calls ivt cs }"

definition quantities_nonnegative :: "Inventory \<Rightarrow> bool" where
  "quantities_nonnegative ivt = (\<forall>p \<in> ran (products' ivt). 0 \<le> sint (quantity' p))"

text \<open>
  No \<open>addQuantity\<close> call of the sequence takes a quantity past \<open>INT_MAX\<close>: the sum
  \<open>quantity_ += amount\<close> of each call that reaches a product is at most \<open>2^31 - 1\<close>.
\<close>

fun call_within_int_max :: "Inventory \<Rightarrow> quantity_call \<Rightarrow> bool" where
  "call_within_int_max ivt (AddQuantity pid amount) =
     (case products' ivt pid of
        None \<Rightarrow> True
      | Some p \<Rightarrow> sint (quantity' p) + sint amount \<le> 2147483647)"
| "call_within_int_max ivt (RemoveQuantity pid amount) = True"

fun calls_within_int_max :: "Inventory \<Rightarrow> quantity_call list \<Rightarrow> bool" where
  "calls_within_int_max ivt [] = True"
| "calls_within_int_max ivt (c # cs) =
     (call_within_int_max ivt c \<and>
      (case apply_call ivt c of None \<Rightarrow> True | Some (_, ivt') \<Rightarrow> calls_within_int_max ivt' cs))"

section \<open>The specification's words\<close>

text \<open>The allowed-successor sets as the specification lists them.\<close>

fun spec_successors :: "OrderStatus \<Rightarrow> OrderStatus set" where
  "spec_successors PENDING = {PROCESSING}"
| "spec_successors PROCESSING = {CONFIRMED, FAILED, CANCELLED}"
| "spec_successors CONFIRMED = {SHIPPED, CANCELLED}"
| "spec_successors SHIPPED = {DELIVERED}"
| "spec_successors DELIVERED = {}"
| "spec_successors CANCELLED = {}"
| "spec_successors FAILED = {}"

text \<open>
  The floor of \<open>expiry - now\<close> in whole days, as the specification words
  \<open>daysUntilExpiry\<close> (\<open>div\<close> on \<open>int\<close> rounds towards minus infinity).
\<close>

definition spec_daysUntilExpiry :: "time_point \<Rightarrow> time_point \<Rightarrow> int" where
  "spec_daysUntilExpiry now e = (e - now) div (24 * ticks_per_hour)"

text \<open>
  The effective threshold of a product as the specification words it: the override of the
  product's category when there is one, the store-wide default otherwise.
\<close>

definition effective_threshold :: "Inventory \<Rightarrow> Product \<Rightarrow> cpp_int" where
  "effective_threshold ivt p =
     (case category_thresholds' ivt (category' p) of
        Some t \<Rightarrow> t
      | None \<Rightarrow> default_low_stock_threshold' ivt)"

section \<open>Auxiliary notions\<close>

text \<open>The successor sets that \<open>updateStatus\<close> accepts: \<open>PENDING\<close> has three.\<close>

fun successors :: "OrderStatus \<Rightarrow> OrderStatus set" where
  "successors PENDING = {PROCESSING, CANCELLED, FAILED}"
| "successors PROCESSING = {CONFIRMED, FAILED, CANCELLED}"
| "successors CONFIRMED = {SHIPPED, CANCELLED}"
| "successors SHIPPED = {DELIVERED}"
| "successors DELIVERED = {}"
| "successors CANCELLED = {}"
| "successors FAILED = {}"

text \<open>
  What the rollback loop gives back to a product: the sum of the amounts recorded for it in
  \<open>processed_items\<close>. Every recorded amount is non-negative and names a product of the
  inventory, because its \<open>removeQuantity\<close> succeeded.
\<close>

definition restored :: "(string \<times> cpp_int) list \<Rightarrow> string \<Rightarrow> cpp_int" where
  "restored processed_items pid =
     sum_list (map snd (filter (\<lambda>x. fst x = pid) processed_items))"

definition reserved_ok :: "(string \<times> cpp_int) list \<Rightarrow> Inventory \<Rightarrow> bool" where
  "reserved_ok processed_items ivt =
     (\<forall>x \<in> set processed_items. 0 \<le> sint (snd x) \<and> fst x \<in> dom (products' ivt))"

text \<open>
  The four checks of \<open>validateOrder\<close> on one item, as conditions: the product exists, its
  quantity is at least the requested one, the current time is not past its expiry time point
  (a plain product has none), and the price difference that \<open>fp\<close> computes is at most the
  tolerance that \<open>fp\<close> computes.
\<close>

definition item_accepted :: "double_ops \<Rightarrow> time_point \<Rightarrow> Inventory \<Rightarrow> OrderItem \<Rightarrow> bool" where
  "item_accepted fp now ivt item =
     (case products' ivt (product_id item) of
        None \<Rightarrow> False
      | Some p \<Rightarrow>
          sint (quantity item) \<le> sint (quantity' p) \<and>
          (case perishable' p of None \<Rightarrow> True | Some x \<Rightarrow> now \<le> expiry_date' x) \<and>
          \<bar>double_minus fp (price' p) (unit_price item)\<bar>
            \<le> double_times fp (price' p) double_0_05)"

section \<open>Example objects\<close>

text \<open>The order that \<open>Order("O1", "C1")\<close> constructs at time 0.\<close>

definition order_O1 :: Order where
  "order_O1 =
     \<lparr>order_id' = ''O1'', customer_id' = ''C1'', items' = [], status' = PENDING,
      order_date' = 0, processed_date' = 0, total_amount' = 0, notes' = [],
      order_mutex' = False, processing_flag' = False, error_message' = []\<rparr>"

definition product_P1 :: Product where
  "product_P1 =
     \<lparr>id' = ''P1'', name' = ''Widget'', category' = ''Tools'', price' = 5, quantity' = 10,
      created_date' = 0, perishable' = None\<rparr>"

definition product_P2 :: Product where
  "product_P2 =
     \<lparr>id' = ''P2'', name' = ''Gadget'', category' = ''Tools'', price' = 2, quantity' = 1,
      created_date' = 0, perishable' = None\<rparr>"

text \<open>
  An inventory with default threshold 10, the threshold 8 for the category of both products,
  and one registered callback.
\<close>

definition inventory_shop :: Inventory where
  "inventory_shop =
     \<lparr>products' = [''P2'' \<mapsto> product_P2, ''P1'' \<mapsto> product_P1],
      inventory_mutex' = False,
      default_low_stock_threshold' = 10,
      category_thresholds' = [''Tools'' \<mapsto> 8],
      alert_callbacks' = [0],
      delivered' = []\<rparr>"

text \<open>A perishable product whose expiry time point is tick 0.\<close>

definition perishable_MILK :: Perishable where
  "perishable_MILK =
     \<lparr>expiry_date' = 0, storage_requirements' = [], storage_temperature' = 20\<rparr>"

definition product_MILK :: Product where
  "product_MILK =
     \<lparr>id' = ''MILK001'', name' = ''Fresh Milk'', category' = ''Dairy'', price' = 4,
      quantity' = 20, created_date' = - 1, perishable' = Some perishable_MILK\<rparr>"

section \<open>Locks\<close>

lemma calculateTotal_held: "order_mutex' ord \<Longrightarrow> calculateTotal ord = None"
  by (simp add: calculateTotal_def lock_guard_def)

lemma updateTotalAmount_held: "order_mutex' ord \<Longrightarrow> updateTotalAmount ord = None"
  by (simp add: updateTotalAmount_def calculateTotal_held)

lemma updateStatus_held: "order_mutex' ord \<Longrightarrow> updateStatus now ord new_status = None"
  by (simp add: updateStatus_def lock_guard_def)

text \<open>
  \<open>addItem\<close> with valid arguments on a \<open>PENDING\<close> order reaches \<open>updateTotalAmount\<close>
  while it holds \<open>order_mutex_\<close>, and \<open>calculateTotal\<close> locks it again.
\<close>

lemma addItem_valid_pending:
  "pid \<noteq> [] \<Longrightarrow> 0 < sint qty \<Longrightarrow> 0 \<le> price \<Longrightarrow> status' ord = PENDING \<Longrightarrow>
   addItem ord pid qty price = None"
  by (simp add: addItem_def lock_guard_def canModify_def Let_def updateTotalAmount_held
      split: option.splits)

lemma removeItem_found:
  "status' ord = PENDING \<Longrightarrow> find_if (items' ord) pid = Some i \<Longrightarrow> removeItem ord pid = None"
  by (simp add: removeItem_def lock_guard_def canModify_def Let_def updateTotalAmount_held)

lemma removeItem_not_pending:
  "\<not> order_mutex' ord \<Longrightarrow> status' ord \<noteq> PENDING \<Longrightarrow> removeItem ord pid = Some (False, ord)"
  by (simp add: removeItem_def lock_guard_def canModify_def Let_def)

lemma updateItemQuantity_not_pending:
  "\<not> order_mutex' ord \<Longrightarrow> status' ord \<noteq> PENDING \<Longrightarrow>
   updateItemQuantity ord pid new_quantity = Some (False, ord)"
  by (simp add: updateItemQuantity_def removeItem_not_pending lock_guard_def canModify_def Let_def)

text \<open>
  \<open>processOrderInternal\<close> calls \<open>updateStatus\<close> inside its own \<open>lock_guard\<close> block, so
  it returns from no state.
\<close>

lemma processOrderInternal_None: "processOrderInternal fp now ord ivt = None"
  by (simp add: processOrderInternal_def lock_guard_def Let_def updateStatus_held)

lemma processOrder_flag_clear:
  "\<not> processing_flag' ord \<Longrightarrow> processOrder fp now ord ivt = None"
  by (simp add: processOrder_def processOrderInternal_None)

lemma processOrder_flag_set:
  "processing_flag' ord \<Longrightarrow>
   processOrder fp now ord ivt =
     Some (False, setError ord ''Order is already being processed'', ivt)"
  by (simp add: processOrder_def)

section \<open>Item lines\<close>

lemma find_if_append_new:
  "find_if its pid = None \<Longrightarrow>
   find_if (its @ [\<lparr>product_id = pid, quantity = q, unit_price = price\<rparr>]) pid = Some (length its)"
  by (induction its) (simp_all split: if_splits)

text \<open>
  The list update of \<open>addItem\<close>, applied twice for a product the order does not hold yet,
  leaves one line with the sum of the two quantities (in 32-bit arithmetic) and the first
  price.
\<close>

lemma addItem_update_twice:
  assumes "find_if its pid = None"
  shows "addItem_update (addItem_update its pid q1 price1) pid q2 price2 =
           its @ [\<lparr>product_id = pid, quantity = q1 + q2, unit_price = price1\<rparr>]"
  using assms by (simp add: addItem_update_def find_if_append_new)

section \<open>Inventory calls\<close>

lemma Inventory_removeQuantity_cases:
  assumes "\<not> inventory_mutex' ivt"
  shows "Inventory_removeQuantity ivt pid amount =
    (case products' ivt pid of
       None \<Rightarrow> Some (False, ivt)
     | Some p \<Rightarrow>
        if sint amount < 0 \<or> sint (quantity' p) < sint amount then Some (False, ivt)
        else
          let p' = p\<lparr>quantity' := quantity' p - amount\<rparr>;
              ivt' = ivt\<lparr>products' := (products' ivt)(pid \<mapsto> p')\<rparr>;
              threshold = getThreshold ivt' pid
          in if sint (quantity' p') < sint threshold
             then Some (True, sendAlert ivt' (low_stock_message p' pid threshold))
             else Some (True, ivt'))"
  using assms
  by (auto simp: Inventory_removeQuantity_def lock_guard_def Product_removeQuantity_def Let_def
      split: option.splits)

lemma Inventory_addQuantity_cases:
  assumes "\<not> inventory_mutex' ivt"
  shows "Inventory_addQuantity ivt pid amount =
    (case products' ivt pid of
       None \<Rightarrow> Some (False, ivt)
     | Some p \<Rightarrow>
        if sint amount < 0 then Some (False, ivt)
        else Some (True,
          ivt\<lparr>products' := (products' ivt)(pid \<mapsto> p\<lparr>quantity' := quantity' p + amount\<rparr>)\<rparr>))"
  using assms
  by (auto simp: Inventory_addQuantity_def lock_guard_def Product_addQuantity_def
      split: option.splits)

lemma Inventory_removeQuantity_returns:
  assumes "\<not> inventory_mutex' ivt"
  shows "\<exists>ok ivt1. Inventory_removeQuantity ivt pid amount = Some (ok, ivt1)"
  using assms
  by (cases "products' ivt pid") (auto simp add: Inventory_removeQuantity_cases Let_def)

lemma sendAlert_fields [simp]:
  "products' (sendAlert ivt m) = products' ivt"
  "inventory_mutex' (sendAlert ivt m) = inventory_mutex' ivt"
  by (simp_all add: sendAlert_def)

text \<open>Within the range of \<open>int\<close>, the 32-bit sum and difference are the exact ones.\<close>

lemma sint_sub_exact:
  fixes q a :: cpp_int
  assumes "0 \<le> sint a" "sint a \<le> sint q"
  shows "sint (q - a) = sint q - sint a"
proof -
  have "sint q < 2 ^ 31" using sint_lt [of q] by simp
  with assms have "- (2 ^ 31) \<le> sint q - sint a" "sint q - sint a < 2 ^ 31" by simp_all
  then show ?thesis
    by (simp add: sint_word_ariths signed_take_bit_int_eq_self)
qed

lemma sint_add_exact:
  fixes q a :: cpp_int
  assumes "0 \<le> sint q" "0 \<le> sint a" "sint q + sint a \<le> 2147483647"
  shows "sint (q + a) = sint q + sint a"
proof -
  from assms have "- (2 ^ 31) \<le> sint q + sint a" "sint q + sint a < 2 ^ 31" by simp_all
  then show ?thesis
    by (simp add: sint_word_ariths signed_take_bit_int_eq_self)
qed

lemma quantities_nonnegative_upd:
  "quantities_nonnegative ivt \<Longrightarrow> 0 \<le> sint (quantity' p) \<Longrightarrow>
   products' ivt' = (products' ivt)(pid \<mapsto> p) \<Longrightarrow> quantities_nonnegative ivt'"
  unfolding quantities_nonnegative_def
  by (auto simp: ran_def split: if_splits)

lemma apply_call_nonnegative:
  assumes "\<not> inventory_mutex' ivt" "quantities_nonnegative ivt" "call_within_int_max ivt c"
  shows "\<exists>ok ivt'. apply_call ivt c = Some (ok, ivt') \<and> \<not> inventory_mutex' ivt' \<and>
           quantities_nonnegative ivt'"
proof (cases c)
  case (AddQuantity pid amount)
  show ?thesis
  proof (cases "products' ivt pid")
    case None
    with assms AddQuantity show ?thesis by (auto simp add: Inventory_addQuantity_cases)
  next
    case (Some p)
    then have q: "0 \<le> sint (quantity' p)"
      using assms(2) by (auto simp: quantities_nonnegative_def ran_def)
    show ?thesis
    proof (cases "sint amount < 0")
      case True
      with assms AddQuantity Some show ?thesis by (auto simp add: Inventory_addQuantity_cases)
    next
      case False
      with q assms(3) AddQuantity Some
      have "sint (quantity' p + amount) = sint (quantity' p) + sint amount"
        by (intro sint_add_exact) auto
      with q False have "0 \<le> sint (quantity' (p\<lparr>quantity' := quantity' p + amount\<rparr>))" by simp
      from quantities_nonnegative_upd [OF assms(2) this]
      show ?thesis using assms AddQuantity Some False
        by (auto simp add: Inventory_addQuantity_cases)
    qed
  qed
next
  case (RemoveQuantity pid amount)
  show ?thesis
  proof (cases "products' ivt pid")
    case None
    with assms RemoveQuantity show ?thesis by (auto simp add: Inventory_removeQuantity_cases)
  next
    case (Some p)
    show ?thesis
    proof (cases "sint amount < 0 \<or> sint (quantity' p) < sint amount")
      case True
      with assms RemoveQuantity Some show ?thesis
        by (auto simp add: Inventory_removeQuantity_cases)
    next
      case False
      then have "sint (quantity' p - amount) = sint (quantity' p) - sint amount"
        by (intro sint_sub_exact) auto
      with False have "0 \<le> sint (quantity' (p\<lparr>quantity' := quantity' p - amount\<rparr>))" by simp
      from quantities_nonnegative_upd [OF assms(2) this]
      show ?thesis using assms RemoveQuantity Some False
        by (auto simp add: Inventory_removeQuantity_cases Let_def)
    qed
  qed
qed

lemma run_calls_nonnegative:
  assumes "\<not> inventory_mutex' ivt" "quantities_nonnegative ivt" "calls_within_int_max ivt cs"
  shows "\<exists>ivt'. run_calls ivt cs = Some ivt' \<and> quantities_nonnegative ivt'"
  using assms
proof (induction cs arbitrary: ivt)
  case Nil
  then show ?case by simp
next
  case (Cons c cs)
  from Cons.prems have "call_within_int_max ivt c" by simp
  from apply_call_nonnegative [OF Cons.prems(1,2) this]
  obtain ok ivt1 where s: "apply_call ivt c = Some (ok, ivt1)" "\<not> inventory_mutex' ivt1"
    "quantities_nonnegative ivt1" by blast
  with Cons.prems have "calls_within_int_max ivt1 cs" by simp
  from Cons.IH [OF s(2,3) this] s(1) show ?case by simp
qed

text \<open>
  C2, as the specification states it, fails: \<open>addQuantity("P2", 2147483647)\<close> on the
  quantity 1 is accepted, and the 32-bit sum is \<open>-2147483648\<close>.
\<close>

theorem quantity_never_negative_counterexample:
  "quantities_nonnegative inventory_shop \<and>
   run_calls inventory_shop [AddQuantity ''P2'' 2147483647] =
     Some (inventory_shop\<lparr>products' := (products' inventory_shop)
        (''P2'' \<mapsto> product_P2\<lparr>quantity' := 2147483648\<rparr>)\<rparr>) \<and>
   sint (quantity' (product_P2\<lparr>quantity' := 2147483648\<rparr>)) = - 2147483648"
  by (simp add: quantities_nonnegative_def inventory_shop_def Inventory_addQuantity_cases
     product_P1_def product_P2_def)

lemma calls_within_int_max_take:
  "calls_within_int_max ivt cs \<Longrightarrow> calls_within_int_max ivt (take n cs)"
proof (induction cs arbitrary: ivt n)
  case Nil
  then show ?case by simp
next
  case (Cons c cs)
  then show ?case
    by (cases n) (auto split: option.splits)
qed

text \<open>
  C2, amended: from an inventory whose quantities are all non-negative, every sequence of
  \<open>Inventory::addQuantity\<close> and \<open>Inventory::removeQuantity\<close> calls in which no
  \<open>addQuantity\<close> takes a quantity past \<open>INT_MAX\<close> returns, and after each of its calls
  every quantity is non-negative; and a \<open>removeQuantity\<close> call on a product of the inventory
  whose amount is negative or exceeds the product's current quantity returns false and leaves
  the inventory unchanged.
\<close>

theorem quantity_never_negative_within_int_max:
  assumes "\<not> inventory_mutex' ivt" and "quantities_nonnegative ivt"
    and "calls_within_int_max ivt calls"
  shows "(\<forall>n. \<exists>ivt'. run_calls ivt (take n calls) = Some ivt' \<and> quantities_nonnegative ivt') \<and>
         (\<forall>pid p amount.
            products' ivt pid = Some p \<and> (sint amount < 0 \<or> sint (quantity' p) < sint amount)
            \<longrightarrow> Inventory_removeQuantity ivt pid amount = Some (False, ivt))"
proof
  show "\<forall>n. \<exists>ivt'. run_calls ivt (take n calls) = Some ivt' \<and> quantities_nonnegative ivt'"
    using run_calls_nonnegative [OF assms(1,2) calls_within_int_max_take [OF assms(3)]]
    by blast
  show "\<forall>pid p amount.
            products' ivt pid = Some p \<and> (sint amount < 0 \<or> sint (quantity' p) < sint amount)
            \<longrightarrow> Inventory_removeQuantity ivt pid amount = Some (False, ivt)"
    using assms(1) by (auto simp: Inventory_removeQuantity_cases)
qed

theorem quantity_never_negative_within_int_max_witness:
  "\<not> inventory_mutex' inventory_shop \<and> quantities_nonnegative inventory_shop \<and>
   calls_within_int_max inventory_shop
     [RemoveQuantity ''P1'' 3, AddQuantity ''P1'' 5, RemoveQuantity ''P1'' 13] \<and>
   (\<exists>ivt'. run_calls inventory_shop
       [RemoveQuantity ''P1'' 3, AddQuantity ''P1'' 5, RemoveQuantity ''P1'' 13] = Some ivt' \<and>
     quantities_nonnegative ivt') \<and>
   Inventory_removeQuantity inventory_shop ''P2'' 2 = Some (False, inventory_shop)"
proof -
  let ?calls = "[RemoveQuantity ''P1'' 3, AddQuantity ''P1'' 5, RemoveQuantity ''P1'' 13]"
  have h1: "\<not> inventory_mutex' inventory_shop"
    by (simp add: inventory_shop_def)
  have h2: "quantities_nonnegative inventory_shop"
    by (simp add: quantities_nonnegative_def inventory_shop_def product_P1_def product_P2_def)
  have h3: "calls_within_int_max inventory_shop ?calls"
    by (simp add: inventory_shop_def Inventory_removeQuantity_cases Inventory_addQuantity_cases
        product_P1_def product_P2_def getThreshold_def sendAlert_def Let_def)
  have h4: "products' inventory_shop ''P2'' = Some product_P2 \<and>
      (sint (2 :: cpp_int) < 0 \<or> sint (quantity' product_P2) < sint (2 :: cpp_int))"
    by (simp add: inventory_shop_def product_P2_def)
  have t: "take 3 ?calls = ?calls" by simp
  from quantity_never_negative_within_int_max [OF h1 h2 h3]
  have "\<exists>ivt'. run_calls inventory_shop (take 3 ?calls) = Some ivt' \<and> quantities_nonnegative ivt'"
    and "Inventory_removeQuantity inventory_shop ''P2'' 2 = Some (False, inventory_shop)"
    using h4 by blast+
  with h1 h2 h3 show ?thesis unfolding t by blast
qed

section \<open>Low-stock alerts\<close>

lemma getThreshold_after_update:
  "products' ivt pid = Some p \<Longrightarrow>
   getThreshold (ivt\<lparr>products' := (products' ivt)(pid \<mapsto> p\<lparr>quantity' := q\<rparr>)\<rparr>) pid =
     effective_threshold ivt p"
  by (simp add: getThreshold_def effective_threshold_def split: option.splits)

text \<open>
  C6: for a product \<open>p\<close> of the inventory, \<open>Inventory::removeQuantity\<close> returns, and when it
  succeeds the calls it made to the registered callbacks are: one call per registered
  callback, in order of registration, each with the low-stock message of the new quantity, if
  the new quantity is strictly below the effective threshold (the override of the product's
  category, else the default), and no call otherwise. When it fails it calls no callback.
\<close>

theorem removeQuantity_alerts:
  assumes "\<not> inventory_mutex' ivt" and "products' ivt pid = Some p"
  shows "\<exists>ok ivt'. Inventory_removeQuantity ivt pid amount = Some (ok, ivt') \<and>
     (if ok then
        \<exists>p'. products' ivt' pid = Some p' \<and> quantity' p' = quantity' p - amount \<and>
          delivered' ivt' = delivered' ivt @
            (if sint (quantity' p') < sint (effective_threshold ivt p)
             then map (\<lambda>cb. (cb, low_stock_message p' pid (effective_threshold ivt p)))
                    (alert_callbacks' ivt)
             else [])
      else delivered' ivt' = delivered' ivt)"
proof (cases "sint amount < 0 \<or> sint (quantity' p) < sint amount")
  case True
  with assms show ?thesis by (auto simp: Inventory_removeQuantity_cases)
next
  case False
  define p' where "p' = p\<lparr>quantity' := quantity' p - amount\<rparr>"
  define ivt' where "ivt' = ivt\<lparr>products' := (products' ivt)(pid \<mapsto> p')\<rparr>"
  have t: "getThreshold ivt' pid = effective_threshold ivt p"
    using assms(2) by (simp add: getThreshold_after_update ivt'_def p'_def)
  show ?thesis
  proof (cases "sint (quantity' p') < sint (effective_threshold ivt p)")
    case True
    with False assms t
    have "Inventory_removeQuantity ivt pid amount =
            Some (True, sendAlert ivt' (low_stock_message p' pid (effective_threshold ivt p)))"
      by (simp add: Inventory_removeQuantity_cases Let_def p'_def [symmetric] ivt'_def [symmetric])
    with True show ?thesis
      by (auto simp add: sendAlert_def ivt'_def p'_def)
  next
    case high: False
    with False assms t
    have "Inventory_removeQuantity ivt pid amount = Some (True, ivt')"
      by (simp add: Inventory_removeQuantity_cases Let_def p'_def [symmetric] ivt'_def [symmetric])
    with high show ?thesis
      by (auto simp add: ivt'_def p'_def)
  qed
qed

theorem removeQuantity_alerts_witness:
  "\<not> inventory_mutex' inventory_shop \<and> products' inventory_shop ''P1'' = Some product_P1 \<and>
   Inventory_removeQuantity inventory_shop ''P1'' 3 =
     Some (True, inventory_shop
       \<lparr>products' := (products' inventory_shop)(''P1'' \<mapsto> product_P1\<lparr>quantity' := 7\<rparr>),
        delivered' := [(0, ''LOW STOCK ALERT: Product '' @ [CHR 0x27] @ ''Widget'' @ [CHR 0x27] @
                         '' (ID: P1) is now at 7 units (threshold: 8)'')]\<rparr>) \<and>
   Inventory_removeQuantity inventory_shop ''P1'' 2 =
     Some (True, inventory_shop
       \<lparr>products' := (products' inventory_shop)(''P1'' \<mapsto> product_P1\<lparr>quantity' := 8\<rparr>)\<rparr>) \<and>
   Inventory_removeQuantity inventory_shop ''P1'' 11 = Some (False, inventory_shop)"
  using removeQuantity_alerts [of inventory_shop "''P1''" product_P1 3]
    removeQuantity_alerts [of inventory_shop "''P1''" product_P1 2]
    removeQuantity_alerts [of inventory_shop "''P1''" product_P1 11]
  by (simp add: Inventory_removeQuantity_cases inventory_shop_def product_P1_def product_P2_def
      getThreshold_def sendAlert_def low_stock_message_def to_string_def Let_def)

section \<open>Validation\<close>

lemma validateOrder_items_accepted:
  assumes "\<not> inventory_mutex' ivt"
  shows "\<exists>errs. validateOrder_items fp now ivt its errors = Some (errors @ errs) \<and>
           (errs = [] \<longleftrightarrow> (\<forall>item \<in> set its. item_accepted fp now ivt item))"
proof (induction its arbitrary: errors)
  case Nil
  then show ?case by simp
next
  case (Cons item rest)
  show ?case
  proof (cases "products' ivt (product_id item)")
    case None
    let ?e = "''Product not found: '' @ product_id item"
    from Cons [of "errors @ [?e]"]
    obtain errs where "validateOrder_items fp now ivt rest (errors @ [?e]) =
        Some ((errors @ [?e]) @ errs)" by blast
    with None assms show ?thesis
      by (simp add: getProduct_def lock_guard_def item_accepted_def)
  next
    case (Some p)
    define e1 where "e1 = (if sint (quantity' p) < sint (quantity item)
                   then [''Insufficient quantity for product '' @ product_id item @
                          '': requested '' @ to_string (quantity item) @
                          '', available '' @ to_string (quantity' p)]
                   else [])"
    define e2 where "e2 = (if isExpired now p
                   then [''Product is expired: '' @ product_id item]
                   else [])"
    define e3 where "e3 =
                  (if \<bar>double_minus fp (price' p) (unit_price item)\<bar>
                        > double_times fp (price' p) double_0_05
                   then [''Price mismatch for product '' @ product_id item @
                          '': order price $'' @ double_to_string fp (unit_price item) @
                          '', current price $'' @ double_to_string fp (price' p)]
                   else [])"
    have step: "validateOrder_items fp now ivt (item # rest) errors =
        validateOrder_items fp now ivt rest (errors @ e1 @ e2 @ e3)"
      using Some assms
      by (simp add: getProduct_def lock_guard_def Let_def e1_def e2_def e3_def)
    from Cons [of "errors @ e1 @ e2 @ e3"]
    obtain errs where r: "validateOrder_items fp now ivt rest (errors @ e1 @ e2 @ e3)
        = Some ((errors @ e1 @ e2 @ e3) @ errs)"
      "errs = [] \<longleftrightarrow> (\<forall>item \<in> set rest. item_accepted fp now ivt item)" by blast
    have here: "e1 @ e2 @ e3 = [] \<longleftrightarrow> item_accepted fp now ivt item"
      using Some
      by (auto simp: e1_def e2_def e3_def item_accepted_def isExpired_def split: option.splits)
    show ?thesis
      using step r here by (intro exI [of _ "e1 @ e2 @ e3 @ errs"]) auto
  qed
qed

text \<open>
  \<open>validateOrder\<close> returns, and its error list is empty if and only if the order has at
  least one item and every item is accepted; for an order with no items the list is exactly
  \<open>"Order contains no items"\<close>. What "within 5% of the current price" is here is the
  comparison of the two doubles that \<open>fp\<close> computes, not a comparison of exact numbers.
\<close>

lemma validateOrder_errors_empty_iff:
  assumes "\<not> order_mutex' ord" and "\<not> inventory_mutex' ivt"
  shows "\<exists>errors. validateOrder fp now ord ivt = Some errors \<and>
     (errors = [] \<longleftrightarrow>
        items' ord \<noteq> [] \<and> (\<forall>item \<in> set (items' ord). item_accepted fp now ivt item)) \<and>
     (items' ord = [] \<longrightarrow> errors = [''Order contains no items''])"
proof (cases "items' ord = []")
  case True
  with assms show ?thesis by (simp add: validateOrder_def lock_guard_def)
next
  case False
  from validateOrder_items_accepted [OF assms(2), of fp now "items' ord" "[]"]
  show ?thesis using False assms(1) by (auto simp: validateOrder_def lock_guard_def)
qed

section \<open>Status transitions\<close>

lemma transition_rejected_successors:
  "transition_rejected s t \<longleftrightarrow> t \<notin> successors s"
  by (cases s; cases t) simp_all

text \<open>
  C3, as the specification states it, fails: \<open>updateStatus(CANCELLED)\<close> succeeds on a
  \<open>PENDING\<close> order although \<open>CANCELLED\<close> is not in the successor set the specification
  gives \<open>PENDING\<close>, and \<open>cancelOrder\<close> succeeds on a \<open>FAILED\<close> order.
\<close>

theorem updateStatus_cancelOrder_spec_counterexample:
  "updateStatus 0 order_O1 CANCELLED = Some (True, order_O1\<lparr>status' := CANCELLED\<rparr>) \<and>
   CANCELLED \<notin> spec_successors (status' order_O1) \<and>
   status' (order_O1\<lparr>status' := FAILED\<rparr>) = FAILED \<and>
   cancelOrder (order_O1\<lparr>status' := FAILED\<rparr>) ''changed my mind'' =
     Some (True, order_O1\<lparr>status' := CANCELLED, notes' := ''changed my mind''\<rparr>)"
  by (simp add: updateStatus_def cancelOrder_def lock_guard_def order_O1_def)

text \<open>
  C3, amended: \<open>updateStatus\<close> returns, and it succeeds if and only if the new status is in
  the successor set of the current one, where \<open>PENDING\<close> has the successors \<open>PROCESSING\<close>,
  \<open>CANCELLED\<close> and \<open>FAILED\<close>, the other sets are the specification's, and \<open>DELIVERED\<close>,
  \<open>CANCELLED\<close> and \<open>FAILED\<close> have none; on success the status is the new one, on failure the
  order is unchanged. \<open>cancelOrder\<close> returns, and it succeeds if and only if the status is
  neither \<open>SHIPPED\<close> nor \<open>DELIVERED\<close>; on success the status is \<open>CANCELLED\<close>, on failure the
  order is unchanged.
\<close>

theorem updateStatus_cancelOrder_transitions:
  assumes "\<not> order_mutex' ord"
  shows "(\<exists>ok ord'. updateStatus now ord T = Some (ok, ord') \<and>
            (ok \<longleftrightarrow> T \<in> successors (status' ord)) \<and>
            (if ok then status' ord' = T else ord' = ord)) \<and>
         (\<exists>ok ord'. cancelOrder ord reason = Some (ok, ord') \<and>
            (ok \<longleftrightarrow> status' ord \<noteq> SHIPPED \<and> status' ord \<noteq> DELIVERED) \<and>
            (if ok then status' ord' = CANCELLED else ord' = ord))"
proof
  from assms show "\<exists>ok ord'. updateStatus now ord T = Some (ok, ord') \<and>
            (ok \<longleftrightarrow> T \<in> successors (status' ord)) \<and>
            (if ok then status' ord' = T else ord' = ord)"
    by (simp add: updateStatus_def lock_guard_def Let_def transition_rejected_successors)
next
  from assms show "\<exists>ok ord'. cancelOrder ord reason = Some (ok, ord') \<and>
            (ok \<longleftrightarrow> status' ord \<noteq> SHIPPED \<and> status' ord \<noteq> DELIVERED) \<and>
            (if ok then status' ord' = CANCELLED else ord' = ord)"
    by (auto simp add: cancelOrder_def lock_guard_def Let_def)
qed

theorem updateStatus_cancelOrder_transitions_witness:
  "\<not> order_mutex' order_O1 \<and>
   updateStatus 7 order_O1 PROCESSING = Some (True, order_O1\<lparr>status' := PROCESSING\<rparr>) \<and>
   updateStatus 7 order_O1 SHIPPED = Some (False, order_O1) \<and>
   updateStatus 7 (order_O1\<lparr>status' := FAILED\<rparr>) PENDING =
     Some (False, order_O1\<lparr>status' := FAILED\<rparr>) \<and>
   cancelOrder (order_O1\<lparr>status' := SHIPPED\<rparr>) [] = Some (False, order_O1\<lparr>status' := SHIPPED\<rparr>) \<and>
   cancelOrder order_O1 [] = Some (True, order_O1\<lparr>status' := CANCELLED\<rparr>)"
  using updateStatus_cancelOrder_transitions [of order_O1 7 PROCESSING "[]"]
    updateStatus_cancelOrder_transitions [of order_O1 7 SHIPPED "[]"]
    updateStatus_cancelOrder_transitions [of "order_O1\<lparr>status' := FAILED\<rparr>" 7 PENDING "[]"]
    updateStatus_cancelOrder_transitions [of "order_O1\<lparr>status' := SHIPPED\<rparr>" 7 SHIPPED "[]"]
  by (simp add: updateStatus_def cancelOrder_def lock_guard_def order_O1_def)

section \<open>Days until expiry\<close>

text \<open>
  A product that expired less than a day ago: both truncating divisions give 0.
\<close>

lemma getDaysUntilExpiry_less_than_a_day:
  assumes "e < now" and "now - e < 24 * ticks_per_hour"
  shows "getDaysUntilExpiry now e = 0"
proof -
  have "\<bar>e - now\<bar> div ticks_per_hour < 24"
    using assms by (simp add: ticks_per_hour_def)
  moreover have "0 \<le> \<bar>e - now\<bar> div ticks_per_hour"
    by (simp add: ticks_per_hour_def)
  ultimately have "\<bar>cpp_div (e - now) ticks_per_hour\<bar> div 24 = 0"
    using assms by (simp add: cpp_div_def ticks_per_hour_def)
  then show ?thesis
    by (simp add: getDaysUntilExpiry_def duration_cast_hours_def Let_def cpp_div_def [of _ 24])
qed

text \<open>
  C9: the product \<open>MILK001\<close> expires at tick 0. One tick later it is expired, the floor of
  \<open>expiry - now\<close> in whole days is \<open>-1\<close>, and \<open>getDaysUntilExpiry\<close> returns 0, which is not
  negative.
\<close>

theorem getDaysUntilExpiry_expired_within_a_day:
  "perishable' product_MILK = Some perishable_MILK \<and> expiry_date' perishable_MILK = 0 \<and>
   isExpired 1 product_MILK \<and>
   sint (getDaysUntilExpiry 1 (expiry_date' perishable_MILK)) = 0 \<and>
   spec_daysUntilExpiry 1 (expiry_date' perishable_MILK) = - 1"
  by (simp add: product_MILK_def perishable_MILK_def isExpired_def getDaysUntilExpiry_def
      duration_cast_hours_def cpp_div_def ticks_per_hour_def spec_daysUntilExpiry_def)

section \<open>Reservation and rollback\<close>

lemma restored_simps [simp]:
  "restored [] pid = 0"
  "restored (x # xs) pid = (if fst x = pid then snd x + restored xs pid else restored xs pid)"
  "restored (xs @ ys) pid = restored xs pid + restored ys pid"
  by (simp_all add: restored_def)

text \<open>
  The rollback loop returns, and it adds to the quantity of every product what
  \<open>processed_items\<close> records for it.
\<close>

lemma rollback_products:
  assumes "\<not> inventory_mutex' ivt" and "reserved_ok ps ivt"
  shows "\<exists>ivt'. rollback ps ivt = Some ivt' \<and> \<not> inventory_mutex' ivt' \<and>
     (\<forall>pid. products' ivt' pid =
        map_option (\<lambda>p. p\<lparr>quantity' := quantity' p + restored ps pid\<rparr>) (products' ivt pid))"
  using assms
proof (induction ps arbitrary: ivt)
  case Nil
  then show ?case by (simp add: option.map_ident)
next
  case (Cons x ps)
  from Cons.prems obtain p where p: "products' ivt (fst x) = Some p" and a: "0 \<le> sint (snd x)"
    by (auto simp: reserved_ok_def)
  define ivt1 where
    "ivt1 = ivt\<lparr>products' := (products' ivt)(fst x \<mapsto> p\<lparr>quantity' := quantity' p + snd x\<rparr>)\<rparr>"
  have add: "Inventory_addQuantity ivt (fst x) (snd x) = Some (True, ivt1)"
    using Cons.prems(1) p a by (simp add: Inventory_addQuantity_cases ivt1_def)
  have "\<not> inventory_mutex' ivt1" "reserved_ok ps ivt1"
    using Cons.prems by (auto simp: ivt1_def reserved_ok_def)
  from Cons.IH [OF this] obtain ivt' where r: "rollback ps ivt1 = Some ivt'"
    "\<not> inventory_mutex' ivt'"
    "\<And>pid. products' ivt' pid =
        map_option (\<lambda>p. p\<lparr>quantity' := quantity' p + restored ps pid\<rparr>) (products' ivt1 pid)"
    by blast
  have "products' ivt' pid =
        map_option (\<lambda>p. p\<lparr>quantity' := quantity' p + restored (x # ps) pid\<rparr>) (products' ivt pid)"
    for pid
    using r(3) [of pid] p by (simp add: ivt1_def add.assoc)
  with add r(1,2) show ?case by simp
qed

text \<open>
  The reservation loop returns from every inventory, and when a \<open>removeQuantity\<close> of it
  fails, the products are those of the inventory at the start of the loop plus what
  \<open>processed_items\<close> recorded before the loop.
\<close>

lemma reserve_items_restores:
  assumes "\<not> inventory_mutex' ivt" and "reserved_ok ps ivt"
  shows "\<exists>failed ivt'. reserve_items its ps ivt = Some (failed, ivt') \<and>
     \<not> inventory_mutex' ivt' \<and>
     (failed \<noteq> None \<longrightarrow>
        (\<forall>pid. products' ivt' pid =
           map_option (\<lambda>p. p\<lparr>quantity' := quantity' p + restored ps pid\<rparr>) (products' ivt pid)))"
  using assms
proof (induction its arbitrary: ps ivt)
  case Nil
  then show ?case by simp
next
  case (Cons item rest)
  obtain ok ivt1 where
    rm: "Inventory_removeQuantity ivt (product_id item) (quantity item) = Some (ok, ivt1)"
    using Inventory_removeQuantity_returns [OF Cons.prems(1)] by blast
  show ?case
  proof (cases ok)
    case False
    with rm Cons.prems(1) have "ivt1 = ivt"
      by (auto simp: Inventory_removeQuantity_cases Let_def split: option.splits if_splits)
    with rollback_products [OF Cons.prems] rm False show ?thesis by auto
  next
    case True
    with rm Cons.prems(1) obtain p where p: "products' ivt (product_id item) = Some p"
      and a: "0 \<le> sint (quantity item)"
      and m1: "\<not> inventory_mutex' ivt1"
      and p1: "products' ivt1 =
        (products' ivt)(product_id item \<mapsto> p\<lparr>quantity' := quantity' p - quantity item\<rparr>)"
      by (auto simp: Inventory_removeQuantity_cases Let_def split: option.splits if_splits)
    let ?ps = "ps @ [(product_id item, quantity item)]"
    have "reserved_ok ?ps ivt1"
      using Cons.prems(2) p a p1 by (auto simp: reserved_ok_def)
    from Cons.IH [OF m1 this] obtain failed ivt' where
      r: "reserve_items rest ?ps ivt1 = Some (failed, ivt')" "\<not> inventory_mutex' ivt'"
      "failed \<noteq> None \<Longrightarrow> products' ivt' pid =
         map_option (\<lambda>p. p\<lparr>quantity' := quantity' p + restored ?ps pid\<rparr>) (products' ivt1 pid)"
      for pid
      by blast
    have "products' ivt' pid =
           map_option (\<lambda>p. p\<lparr>quantity' := quantity' p + restored ps pid\<rparr>) (products' ivt pid)"
      if "failed \<noteq> None" for pid
      using r(3) [OF that, of pid] p by (simp add: p1)
    with rm True r(1,2) show ?thesis by simp
  qed
qed

lemma reserve_items_failure_restores:
  assumes "\<not> inventory_mutex' ivt"
  shows "\<exists>failed ivt'. reserve_items its [] ivt = Some (failed, ivt') \<and>
     \<not> inventory_mutex' ivt' \<and> (failed \<noteq> None \<longrightarrow> products' ivt' = products' ivt)"
proof -
  from reserve_items_restores [OF assms, of "[]" its]
  obtain failed ivt' where r: "reserve_items its [] ivt = Some (failed, ivt')"
    "\<not> inventory_mutex' ivt'"
    "failed \<noteq> None \<Longrightarrow> products' ivt' pid =
       map_option (\<lambda>p. p\<lparr>quantity' := quantity' p + restored [] pid\<rparr>) (products' ivt pid)"
    for pid
    by (auto simp: reserved_ok_def)
  have "products' ivt' = products' ivt" if "failed \<noteq> None"
    using r(3) [OF that] by (intro ext) (simp add: option.map_ident)
  with r(1,2) show ?thesis by blast
qed

text \<open>
  In one thread the rollback is not needed: when the lines of the order name different
  products and each asks for a non-negative quantity that the inventory holds, which is what
  \<open>validateOrder\<close> has just checked on an order whose lines \<open>addItem\<close> merged, every
  \<open>removeQuantity\<close> of the loop succeeds. The loop fails only when the inventory has changed
  since the validation, or on a line quantity that wrapped around.
\<close>

lemma reserve_items_sufficient:
  assumes "\<not> inventory_mutex' ivt" and "distinct (map product_id its)"
    and "\<forall>item \<in> set its. 0 \<le> sint (quantity item) \<and>
           (\<exists>p. products' ivt (product_id item) = Some p \<and>
                sint (quantity item) \<le> sint (quantity' p))"
  shows "\<exists>ivt'. reserve_items its ps ivt = Some (None, ivt')"
  using assms
proof (induction its arbitrary: ps ivt)
  case Nil
  then show ?case by simp
next
  case (Cons item rest)
  from Cons.prems(3) obtain p where p: "products' ivt (product_id item) = Some p"
    and q: "0 \<le> sint (quantity item)" "sint (quantity item) \<le> sint (quantity' p)"
    by auto
  obtain ivt1 where
    rm: "Inventory_removeQuantity ivt (product_id item) (quantity item) = Some (True, ivt1)"
    and m1: "\<not> inventory_mutex' ivt1"
    and p1: "products' ivt1 =
      (products' ivt)(product_id item \<mapsto> p\<lparr>quantity' := quantity' p - quantity item\<rparr>)"
    using Cons.prems(1) p q
    by (cases "sint (quantity' (p\<lparr>quantity' := quantity' p - quantity item\<rparr>))
          < sint (getThreshold
              (ivt\<lparr>products' := (products' ivt)
                 (product_id item \<mapsto> p\<lparr>quantity' := quantity' p - quantity item\<rparr>)\<rparr>)
              (product_id item))")
       (simp_all add: Inventory_removeQuantity_cases Let_def)
  have "products' ivt1 (product_id i) = products' ivt (product_id i)" if "i \<in> set rest" for i
  proof -
    from Cons.prems(2) have "product_id item \<notin> product_id ` set rest" by simp
    with that have "product_id i \<noteq> product_id item" by (metis imageI)
    then show ?thesis by (simp add: p1)
  qed
  with Cons.prems(3) have
    "\<forall>i \<in> set rest. 0 \<le> sint (quantity i) \<and>
       (\<exists>p. products' ivt1 (product_id i) = Some p \<and> sint (quantity i) \<le> sint (quantity' p))"
    by simp
  from Cons.IH [OF m1 _ this, of "ps @ [(product_id item, quantity item)]"] Cons.prems(2)
  obtain ivt' where
    "reserve_items rest (ps @ [(product_id item, quantity item)]) ivt1 = Some (None, ivt')"
    by auto
  with rm show ?case by simp
qed

text \<open>
  The part of \<open>processOrderInternal\<close> from the reservation loop on, entered with the status
  \<open>PROCESSING\<close>, returns from every inventory: true with the status \<open>CONFIRMED\<close>, or false
  with the status \<open>FAILED\<close> and every product as it was when the loop began.
\<close>

lemma processOrderInternal_reserve_result:
  assumes "\<not> order_mutex' ord" and "status' ord = PROCESSING" and "\<not> inventory_mutex' ivt"
  shows "\<exists>result ord' ivt'. processOrderInternal_reserve now ord ivt = Some (result, ord', ivt') \<and>
     (if result then status' ord' = CONFIRMED
      else status' ord' = FAILED \<and> products' ivt' = products' ivt)"
proof -
  from reserve_items_failure_restores [OF assms(3), of "items' ord"]
  obtain failed ivt' where r: "reserve_items (items' ord) [] ivt = Some (failed, ivt')"
    "failed \<noteq> None \<Longrightarrow> products' ivt' = products' ivt"
    by blast
  show ?thesis
  proof (cases failed)
    case None
    with r(1) assms(1,2) show ?thesis
      by (auto simp add: processOrderInternal_reserve_def updateStatus_def lock_guard_def Let_def)
  next
    case (Some pid)
    with r assms(1,2) show ?thesis
      by (auto simp add: processOrderInternal_reserve_def updateStatus_def lock_guard_def Let_def
          setError_def)
  qed
qed

text \<open>
  The part of \<open>processOrderInternal\<close> from the validation on, entered with the status
  \<open>PROCESSING\<close>: when \<open>validateOrder\<close> reports errors it returns false, the status is
  \<open>FAILED\<close>, the error message is the joined error list, and the inventory is the same.
\<close>

lemma processOrderInternal_validate_errors:
  assumes "\<not> order_mutex' ord" and "status' ord = PROCESSING"
    and "validateOrder fp now ord ivt = Some errors" and "errors \<noteq> []"
  shows "processOrderInternal_validate fp now ord ivt =
     Some (False,
       ord\<lparr>error_message' := error_stream 0 errors ''Validation failed: '',
           status' := FAILED, processed_date' := now\<rparr>, ivt)"
  using assms
  by (simp add: processOrderInternal_validate_def updateStatus_def lock_guard_def Let_def
      setError_def)

section \<open>Calls that do not return\<close>

text \<open>
  C4: \<open>validateOrder\<close> reports an error for the empty order \<open>O1\<close>, and \<open>processOrder\<close> does
  not return on it: \<open>processOrderInternal\<close> locks \<open>order_mutex_\<close> and, holding it, calls
  \<open>updateStatus\<close>, which locks it again.
\<close>

theorem processOrder_empty_order_no_return:
  "validateOrder fp now order_O1 inventory_shop = Some [''Order contains no items''] \<and>
   processOrder fp now order_O1 inventory_shop = None"
  by (simp add: validateOrder_def lock_guard_def processOrder_flag_clear order_O1_def)

text \<open>
  C8: the first \<open>addItem("P1", 2, 5.0)\<close> on the fresh order \<open>O1\<close> does not return:
  \<open>addItem\<close> holds \<open>order_mutex_\<close> when it calls \<open>updateTotalAmount\<close>, whose
  \<open>calculateTotal\<close> locks it again.
\<close>

theorem addItem_fresh_order_no_return:
  "addItem order_O1 ''P1'' 2 5 = None"
  by (rule addItem_valid_pending) (simp_all add: order_O1_def)

end
